theory Spec2Isabelle
  imports Main "HOL-Library.Word"
begin

section \<open>Run-time panics\<close>

text \<open>
  A Go function that indexes or slices out of range, or dereferences a nil pointer,
  does not return: it panics. The models below return \<open>go_panic + 'a\<close>, with
  \<open>Inl\<close> for the panic.
\<close>

datatype go_panic = SliceBoundsOutOfRange | NilPointerDereference

section \<open>Scope validation\<close>

text \<open>
  \<open>strings.ContainsAny(s, chars)\<close> of the Go standard library: some character of
  \<open>chars\<close> occurs in \<open>s\<close>. Both characters looked for by \<open>ValidateScope\<close> are
  ASCII, so the search is one over the bytes of \<open>s\<close>, and a \<open>string\<close> here is the
  list of bytes of the Go string.
\<close>

definition ContainsAny :: "string \<Rightarrow> string \<Rightarrow> bool" where
  "ContainsAny s chars = (\<exists>c \<in> set s. c \<in> set chars)"

text \<open>
  \<^verbatim>\<open>
  func ValidateScope(scope string) bool {
      prefix, last := scope[:len(scope)-1], scope[len(scope)-1]
      if len(prefix) > 0 && last == '*' {
          lastChar := prefix[len(prefix)-1]
          if lastChar != ':' && lastChar != '/' {
              return false
          }
      }
      return !strings.ContainsAny(prefix, "*?")
  }
  \<close>
  The first operand \<open>scope[:len(scope)-1]\<close> is evaluated first; on the empty string
  its upper bound is \<open>-1\<close> and the slice expression panics.
\<close>

definition ValidateScope :: "string \<Rightarrow> go_panic + bool" where
  "ValidateScope scope =
     (if length scope = 0 then Inl SliceBoundsOutOfRange
      else
        let prefix = take (length scope - 1) scope;
            last' = scope ! (length scope - 1)
        in if length prefix > 0 \<and> last' = CHR ''*'' then
             let lastChar = prefix ! (length prefix - 1)
             in if lastChar \<noteq> CHR '':'' \<and> lastChar \<noteq> CHR ''/'' then Inr False
                else Inr (\<not> ContainsAny prefix ''*?'')
           else Inr (\<not> ContainsAny prefix ''*?''))"

section \<open>Permissions\<close>

record Permission =
  Action :: string
  Scope :: string

text \<open>
  \<^verbatim>\<open>
  func BuildPermissionsMap(permissions []*Permission) map[string]bool {
      permissionsMap := make(map[string]bool)
      for _, p := range permissions {
          permissionsMap[p.Action] = true
      }
      return permissionsMap
  }
  \<close>
  The slice holds pointers; \<open>None\<close> is the nil pointer, and \<open>p.Action\<close> on it
  panics. The loop is \<open>BuildPermissionsMap_loop\<close>, with the map built so far as
  its second argument.
\<close>

fun BuildPermissionsMap_loop ::
  "Permission option list \<Rightarrow> (string \<rightharpoonup> bool) \<Rightarrow> go_panic + (string \<rightharpoonup> bool)" where
  "BuildPermissionsMap_loop [] permissionsMap = Inr permissionsMap"
| "BuildPermissionsMap_loop (None # ps) permissionsMap = Inl NilPointerDereference"
| "BuildPermissionsMap_loop (Some p # ps) permissionsMap =
     BuildPermissionsMap_loop ps (permissionsMap(Action p \<mapsto> True))"

definition BuildPermissionsMap ::
  "Permission option list \<Rightarrow> go_panic + (string \<rightharpoonup> bool)" where
  "BuildPermissionsMap permissions = BuildPermissionsMap_loop permissions Map.empty"

section \<open>The access helpers\<close>

text \<open>
  The package \<open>models\<close> is not part of the source at hand. Of \<open>models.SignedInUser\<close>
  the helpers touch the fields \<open>OrgId\<close>, \<open>OrgRole\<close> and \<open>OrgName\<close>; all its other
  fields are the component \<open>other_fields\<close>, of a type left open. Organization ids
  are \<open>int64\<close> throughout the interfaces.
\<close>

record 'r SignedInUser =
  OrgId :: "64 word"
  OrgRole :: string
  OrgName :: string
  other_fields :: 'r

text \<open>
  \<open>c.SignedInUser\<close> is a pointer, and \<open>HasGlobalAccess\<close> is about the difference
  between the struct it points to and a copy, so the structs live in a store: an address
  is an index into \<open>users\<close>, a new struct is appended, \<open>None\<close> is nil. The component
  \<open>engine\<close> is whatever else the access-control engine and the fallback read and write.
\<close>

type_synonym addr = nat

record ('r, 'w) store =
  users :: "'r SignedInUser list"
  engine :: 'w

definition principal_at :: "('r, 'w) store \<Rightarrow> addr option \<Rightarrow> 'r SignedInUser option" where
  "principal_at w p =
     (case p of None \<Rightarrow> None
      | Some a \<Rightarrow> if a < length (users w) then Some (users w ! a) else None)"

text \<open>
  Of \<open>models.ReqContext\<close> the helpers read \<open>c.SignedInUser\<close> and \<open>c.Req.Context()\<close>;
  the latter is the field \<open>Req\<close>, of the open type of contexts. \<open>c.Logger\<close> appears as
  the logging call below. The request context itself is only read.
\<close>

record 'c ReqContext =
  SignedInUser :: "addr option"
  Req :: 'c

text \<open>
  The two methods of the interface \<open>AccessControl\<close> that the helpers call. An
  implementation is arbitrary code: a method takes the store and returns its results
  with the store it leaves. \<open>Evaluate\<close> returns Go's pair \<open>(bool, error)\<close>, where
  \<open>None\<close> is the nil error; both components are kept, since nothing forces the
  boolean to be false beside an error.
\<close>

record ('r, 'w, 'c, 'v, 'e) AccessControl =
  Evaluate :: "'c \<Rightarrow> addr option \<Rightarrow> 'v \<Rightarrow> ('r, 'w) store
                 \<Rightarrow> (bool \<times> 'e option) \<times> ('r, 'w) store"
  IsDisabled :: "('r, 'w) store \<Rightarrow> bool \<times> ('r, 'w) store"

text \<open>
  What a helper calls, in order: each call with its arguments and what it returned;
  the call of \<open>Evaluate\<close> also with the store it was given.
\<close>

datatype ('r, 'w, 'c, 'v, 'e) call =
    CallIsDisabled bool
  | CallFallback "'c ReqContext" bool
  | CallEvaluate 'c "addr option" 'v "('r, 'w) store" "bool \<times> 'e option"
  | CallLoggerError string string 'e

fun is_CallEvaluate :: "('r, 'w, 'c, 'v, 'e) call \<Rightarrow> bool" where
  "is_CallEvaluate (CallEvaluate x p v w res) = True"
| "is_CallEvaluate _ = False"

text \<open>
  \<^verbatim>\<open>
  func HasAccess(ac AccessControl, c *models.ReqContext)
          func(fallback func(*models.ReqContext) bool, evaluator Evaluator) bool {
      return func(fallback func(*models.ReqContext) bool, evaluator Evaluator) bool {
          if ac.IsDisabled() {
              return fallback(c)
          }
          hasAccess, err := ac.Evaluate(c.Req.Context(), c.SignedInUser, evaluator)
          if err != nil {
              c.Logger.Error("Error from access control system", "error", err)
              return false
          }
          return hasAccess
      }
  }
  \<close>
  The closure is the partial application \<open>HasAccess ac c\<close>. The result is the boolean,
  the store left behind and the calls made.
\<close>

definition HasAccess ::
  "('r, 'w, 'c, 'v, 'e) AccessControl \<Rightarrow> 'c ReqContext
     \<Rightarrow> ('c ReqContext \<Rightarrow> ('r, 'w) store \<Rightarrow> bool \<times> ('r, 'w) store) \<Rightarrow> 'v
     \<Rightarrow> ('r, 'w) store
     \<Rightarrow> go_panic + (bool \<times> ('r, 'w) store \<times> ('r, 'w, 'c, 'v, 'e) call list)" where
  "HasAccess ac c fallback evaluator s =
     (case IsDisabled ac s of (disabled, s1) \<Rightarrow>
        if disabled then
          (case fallback c s1 of (r, s2) \<Rightarrow>
             Inr (r, s2, [CallIsDisabled disabled, CallFallback c r]))
        else
          (case Evaluate ac (Req c) (SignedInUser c) evaluator s1 of
             ((hasAccess, err), s2) \<Rightarrow>
               (case err of
                  Some e \<Rightarrow>
                    Inr (False, s2,
                      [CallIsDisabled disabled,
                       CallEvaluate (Req c) (SignedInUser c) evaluator s1 (hasAccess, err),
                       CallLoggerError ''Error from access control system'' ''error'' e])
                | None \<Rightarrow>
                    Inr (hasAccess, s2,
                      [CallIsDisabled disabled,
                       CallEvaluate (Req c) (SignedInUser c) evaluator s1 (hasAccess, err)]))))"

text \<open>
  \<^verbatim>\<open>
  func HasGlobalAccess(ac AccessControl, c *models.ReqContext)
          func(fallback func(*models.ReqContext) bool, evaluator Evaluator) bool {
      return func(fallback func(*models.ReqContext) bool, evaluator Evaluator) bool {
          if ac.IsDisabled() {
              return fallback(c)
          }
          userCopy := *c.SignedInUser
          userCopy.OrgId = GlobalOrgID
          userCopy.OrgRole = ""
          userCopy.OrgName = ""
          hasAccess, err := ac.Evaluate(c.Req.Context(), &userCopy, evaluator)
          if err != nil {
              c.Logger.Error("Error from access control system", "error", err)
              return false
          }
          return hasAccess
      }
  }
  \<close>
  The constant \<open>GlobalOrgID\<close> is declared outside the source at hand and is the first
  parameter. \<open>*c.SignedInUser\<close> panics on the nil pointer; an address outside the store
  does not arise in Go and is given the same outcome. \<open>userCopy\<close> has its address
  taken, so it is a new struct in the store.
\<close>

definition HasGlobalAccess ::
  "64 word \<Rightarrow> ('r, 'w, 'c, 'v, 'e) AccessControl \<Rightarrow> 'c ReqContext
     \<Rightarrow> ('c ReqContext \<Rightarrow> ('r, 'w) store \<Rightarrow> bool \<times> ('r, 'w) store) \<Rightarrow> 'v
     \<Rightarrow> ('r, 'w) store
     \<Rightarrow> go_panic + (bool \<times> ('r, 'w) store \<times> ('r, 'w, 'c, 'v, 'e) call list)" where
  "HasGlobalAccess GlobalOrgID ac c fallback evaluator s =
     (case IsDisabled ac s of (disabled, s1) \<Rightarrow>
        if disabled then
          (case fallback c s1 of (r, s2) \<Rightarrow>
             Inr (r, s2, [CallIsDisabled disabled, CallFallback c r]))
        else
          (case principal_at s1 (SignedInUser c) of
             None \<Rightarrow> Inl NilPointerDereference
           | Some u \<Rightarrow>
               let userCopy = u\<lparr>OrgId := GlobalOrgID, OrgRole := '''', OrgName := ''''\<rparr>;
                   p = Some (length (users s1));
                   s2 = s1\<lparr>users := users s1 @ [userCopy]\<rparr>
               in (case Evaluate ac (Req c) p evaluator s2 of
                     ((hasAccess, err), s3) \<Rightarrow>
                       (case err of
                          Some e \<Rightarrow>
                            Inr (False, s3,
                              [CallIsDisabled disabled,
                               CallEvaluate (Req c) p evaluator s2 (hasAccess, err),
                               CallLoggerError ''Error from access control system''
                                 ''error'' e])
                        | None \<Rightarrow>
                            Inr (hasAccess, s3,
                              [CallIsDisabled disabled,
                               CallEvaluate (Req c) p evaluator s2 (hasAccess, err)])))))"

section \<open>The dashboard guardian's response\<close>

text \<open>
  \<^verbatim>\<open>
  func dashboardGuardianResponse(err error) Response {
      if err != nil {
          return ApiError(500, "Error while checking dashboard permissions", err)
      } else {
          return ApiError(403, "Access denied to this dashboard", nil)
      }
  }
  \<close>
  \<open>ApiError\<close> and the type \<open>Response\<close> are declared outside the source at hand:
  \<open>ApiError\<close> is the first parameter, from a status code, a message and an error to
  a response of an open type.
\<close>

definition dashboardGuardianResponse ::
  "(int \<Rightarrow> string \<Rightarrow> 'e option \<Rightarrow> 'resp) \<Rightarrow> 'e option \<Rightarrow> 'resp" where
  "dashboardGuardianResponse ApiError err =
     (if err \<noteq> None then ApiError 500 ''Error while checking dashboard permissions'' err
      else ApiError 403 ''Access denied to this dashboard'' None)"

section \<open>A sample request and three engines\<close>

text \<open>
  One signed-in user in the store, a request of that user, an engine whose
  \<open>Evaluate\<close> reports an error beside the answer true, an engine that grants, a
  disabled engine, and a fallback that allows. \<open>global_store\<close> is the sample store
  after \<open>HasGlobalAccess\<close> has added its copy for the global organization \<open>0\<close>.
\<close>

definition example_user :: "unit SignedInUser" where
  "example_user = \<lparr>OrgId = 1, OrgRole = ''Viewer'', OrgName = ''Main Org.'', other_fields = ()\<rparr>"

definition example_store :: "(unit, unit) store" where
  "example_store = \<lparr>users = [example_user], engine = ()\<rparr>"

definition example_request :: "unit ReqContext" where
  "example_request = \<lparr>SignedInUser = Some 0, Req = ()\<rparr>"

definition failing_engine :: "(unit, unit, unit, unit, string) AccessControl" where
  "failing_engine =
     \<lparr>Evaluate = (\<lambda>x p v w. ((True, Some ''lookup failed''), w)),
      IsDisabled = (\<lambda>w. (False, w))\<rparr>"

definition granting_engine :: "(unit, unit, unit, unit, string) AccessControl" where
  "granting_engine =
     \<lparr>Evaluate = (\<lambda>x p v w. ((True, None), w)),
      IsDisabled = (\<lambda>w. (False, w))\<rparr>"

definition disabled_engine :: "(unit, unit, unit, unit, string) AccessControl" where
  "disabled_engine =
     \<lparr>Evaluate = (\<lambda>x p v w. ((False, None), w)),
      IsDisabled = (\<lambda>w. (True, w))\<rparr>"

definition allow_fallback :: "unit ReqContext \<Rightarrow> (unit, unit) store \<Rightarrow> bool \<times> (unit, unit) store" where
  "allow_fallback c w = (True, w)"

definition global_store :: "(unit, unit) store" where
  "global_store =
     \<lparr>users = [example_user,
                \<lparr>OrgId = 0, OrgRole = '''', OrgName = '''', other_fields = ()\<rparr>],
      engine = ()\<rparr>"

section \<open>Properties of the scope validator\<close>

lemma ContainsAny_wild:
  "ContainsAny s ''*?'' = (CHR ''*'' \<in> set s \<or> CHR ''?'' \<in> set s)"
  by (auto simp: ContainsAny_def)

lemma ValidateScope_snoc:
  "ValidateScope (p @ [l]) =
     (if p \<noteq> [] \<and> l = CHR ''*'' \<and> last p \<noteq> CHR '':'' \<and> last p \<noteq> CHR ''/''
      then Inr False else Inr (\<not> ContainsAny p ''*?''))"
  by (simp add: ValidateScope_def Let_def nth_append last_conv_nth)

lemma ValidateScope_total:
  "scope \<noteq> [] \<Longrightarrow> \<exists>b. ValidateScope scope = Inr b"
  by (cases scope rule: rev_cases) (auto simp: ValidateScope_snoc)

text \<open>
  C4. A scope with a \<open>*\<close> or a \<open>?\<close> at a position before its final character is
  rejected: \<open>ValidateScope\<close> returns false.
\<close>

theorem ValidateScope_embedded_wildcard:
  assumes "i < length scope - 1"
    and "scope ! i = CHR ''*'' \<or> scope ! i = CHR ''?''"
  shows "ValidateScope scope = Inr False"
proof (cases scope rule: rev_cases)
  case Nil
  with assms show ?thesis by simp
next
  case (snoc p l)
  with assms have i: "i < length p" by simp
  with snoc have "scope ! i = p ! i" by (simp add: nth_append)
  with assms i have "CHR ''*'' \<in> set p \<or> CHR ''?'' \<in> set p"
    by (metis nth_mem)
  then have "ContainsAny p ''*?''" by (simp add: ContainsAny_wild)
  with snoc show ?thesis by (simp add: ValidateScope_snoc)
qed

theorem ValidateScope_embedded_wildcard_witness:
  "(4::nat) < length ''dash*boards:id:5'' - 1
   \<and> ''dash*boards:id:5'' ! 4 = CHR ''*''
   \<and> ValidateScope ''dash*boards:id:5'' = Inr False"
  using ValidateScope_embedded_wildcard [of 4 "''dash*boards:id:5''"] by simp

text \<open>
  C1, as the code has it. A scope \<open>p @ [c, *]\<close> whose wildcard follows a separator
  \<open>c\<close> (\<open>:\<close> or \<open>/\<close>) is accepted when, besides, no \<open>*\<close> and no \<open>?\<close> occurs in
  \<open>p\<close>; a scope whose wildcard follows any other character is rejected.
\<close>

theorem ValidateScope_trailing_wildcard:
  "((c = CHR '':'' \<or> c = CHR ''/'') \<and> \<not> ContainsAny p ''*?''
      \<longrightarrow> ValidateScope (p @ [c, CHR ''*'']) = Inr True)
   \<and> (c \<noteq> CHR '':'' \<and> c \<noteq> CHR ''/''
      \<longrightarrow> ValidateScope (p @ [c, CHR ''*'']) = Inr False)"
proof -
  have split: "p @ [c, CHR ''*''] = (p @ [c]) @ [CHR ''*'']" by simp
  have "ValidateScope ((p @ [c]) @ [CHR ''*'']) =
          (if c \<noteq> CHR '':'' \<and> c \<noteq> CHR ''/'' then Inr False
           else Inr (\<not> ContainsAny (p @ [c]) ''*?''))"
    unfolding ValidateScope_snoc by simp
  moreover have "c = CHR '':'' \<or> c = CHR ''/'' \<Longrightarrow>
      ContainsAny (p @ [c]) ''*?'' = ContainsAny p ''*?''"
    by (auto simp: ContainsAny_wild)
  ultimately show ?thesis unfolding split by auto
qed

theorem ValidateScope_trailing_wildcard_witness:
  "ValidateScope ''dashboards:id:*'' = Inr True
   \<and> ValidateScope ''dashboards/*'' = Inr True
   \<and> ValidateScope ''dashboards:id*'' = Inr False"
  using ValidateScope_trailing_wildcard [of "CHR '':''" "''dashboards:id''"]
    ValidateScope_trailing_wildcard [of "CHR ''/''" "''dashboards''"]
    ValidateScope_trailing_wildcard [of "CHR ''d''" "''dashboards:i''"]
  by (simp add: ContainsAny_wild)

text \<open>
  C1 as stated fails: the wildcard of \<open>dash*boards:*\<close> follows the separator \<open>:\<close>,
  and the scope is rejected for the \<open>*\<close> inside its prefix.
\<close>

theorem ValidateScope_separator_counterexample:
  "ValidateScope (''dash*boards'' @ [CHR '':'', CHR ''*'']) = Inr False"
  by (simp add: ValidateScope_def ContainsAny_def)

text \<open>
  C2, as the code has it. An accepted scope that ends in \<open>*\<close> and has at least one
  character before the wildcard has a separator, \<open>:\<close> or \<open>/\<close>, right before it. The
  separator check is guarded by \<open>len(prefix) > 0\<close>, so it says nothing about the scope
  \<open>*\<close> alone.
\<close>

theorem ValidateScope_accepted_wildcard:
  assumes "ValidateScope scope = Inr True"
    and "last scope = CHR ''*''"
    and "butlast scope \<noteq> []"
  shows "last (butlast scope) = CHR '':'' \<or> last (butlast scope) = CHR ''/''"
proof (cases scope rule: rev_cases)
  case Nil
  with assms show ?thesis by simp
next
  case (snoc p l)
  with assms have "l = CHR ''*''" and "p \<noteq> []" by simp_all
  with assms(1) snoc have "last p = CHR '':'' \<or> last p = CHR ''/''"
    by (auto simp: ValidateScope_snoc split: if_splits)
  with snoc show ?thesis by simp
qed

theorem ValidateScope_accepted_wildcard_witness:
  "ValidateScope ''dashboards:*'' = Inr True
   \<and> last ''dashboards:*'' = CHR ''*''
   \<and> butlast ''dashboards:*'' \<noteq> []
   \<and> last (butlast ''dashboards:*'') = CHR '':''"
proof -
  have a: "ValidateScope ''dashboards:*'' = Inr True"
    by (simp add: ValidateScope_def ContainsAny_def)
  have b: "last ''dashboards:*'' = CHR ''*''" by simp
  have c: "butlast ''dashboards:*'' \<noteq> []" by simp
  from ValidateScope_accepted_wildcard [OF a b c] a b c show ?thesis by simp
qed

text \<open>
  C2 as stated fails at the one-character scope \<open>*\<close>: it ends in \<open>*\<close>, nothing
  precedes the wildcard, and \<open>ValidateScope\<close> accepts it.
\<close>

theorem ValidateScope_lone_wildcard_counterexample:
  "ValidateScope ''*'' = Inr True \<and> last ''*'' = CHR ''*'' \<and> butlast ''*'' = []"
  by (simp add: ValidateScope_def ContainsAny_def)

text \<open>
  C3. On the empty string the code does not return a verdict: its first slice
  expression is out of range and the call panics.
\<close>

theorem ValidateScope_empty_panics:
  "ValidateScope '''' = Inl SliceBoundsOutOfRange"
  by (simp add: ValidateScope_def)

text \<open>
  C10. A non-empty scope whose last character is \<open>?\<close> and whose earlier characters
  include no \<open>*\<close> and no \<open>?\<close> is accepted.
\<close>

theorem ValidateScope_trailing_question_mark:
  "\<not> ContainsAny p ''*?'' \<Longrightarrow> ValidateScope (p @ [CHR ''?'']) = Inr True"
  by (simp add: ValidateScope_snoc)

theorem ValidateScope_trailing_question_mark_witness:
  "\<not> ContainsAny ''dashboards:id:'' ''*?''
   \<and> ValidateScope ''dashboards:id:?'' = Inr True
   \<and> ValidateScope ''?'' = Inr True"
  using ValidateScope_trailing_question_mark [of "''dashboards:id:''"]
    ValidateScope_trailing_question_mark [of "''''"]
  by (simp add: ContainsAny_wild)

section \<open>Properties of the access helpers\<close>

text \<open>\<open>HasAccess\<close> dereferences nothing itself, so it always returns.\<close>

lemma HasAccess_returns:
  "\<exists>r s' tr. HasAccess ac c fallback evaluator s = Inr (r, s', tr)"
  by (auto simp: HasAccess_def split: prod.splits option.splits)

text \<open>
  Every call of \<open>Evaluate\<close> that a helper records is a call of the engine's own
  \<open>Evaluate\<close>, made after \<open>IsDisabled\<close> returned false, with the recorded result;
  and when that result carries an error the helper has returned false.
\<close>

lemma HasAccess_recorded_Evaluate:
  assumes "HasAccess ac c fallback evaluator s = Inr (r, s', tr)"
    and "CallEvaluate x p v w res \<in> set tr"
  shows "\<not> fst (IsDisabled ac s) \<and> w = snd (IsDisabled ac s)
         \<and> Evaluate ac x p v w = (res, s') \<and> (snd res \<noteq> None \<longrightarrow> \<not> r)"
  using assms
  by (auto simp: HasAccess_def split: prod.splits if_splits option.splits)

lemma HasGlobalAccess_recorded_Evaluate:
  assumes "HasGlobalAccess G ac c fallback evaluator s = Inr (r, s', tr)"
    and "CallEvaluate x p v w res \<in> set tr"
  shows "\<not> fst (IsDisabled ac s)
         \<and> Evaluate ac x p v w = (res, s') \<and> (snd res \<noteq> None \<longrightarrow> \<not> r)"
  using assms
  by (auto simp: HasGlobalAccess_def Let_def split: prod.splits if_splits option.splits)

text \<open>
  C5. The engine is enabled: \<open>IsDisabled\<close> returns false and leaves the store \<open>s1\<close>.
  If the call of \<open>Evaluate\<close> that \<open>HasAccess\<close> then makes, on the request's context,
  the pointer \<open>c.SignedInUser\<close> and the evaluator, returns a non-nil error \<open>e\<close>, then
  \<open>HasAccess\<close> returns false, whatever boolean \<open>b\<close> came with the error, after
  logging \<open>e\<close>. If the call of \<open>Evaluate\<close> that \<open>HasGlobalAccess\<close> then makes, on
  the request's context, a pointer to its copy of the principal \<open>u\<close> and the
  evaluator, returns a non-nil error \<open>e'\<close>, then \<open>HasGlobalAccess\<close> returns false,
  whatever boolean \<open>b'\<close> came with the error, after logging \<open>e'\<close>.
\<close>

theorem deny_on_Evaluate_error:
  "(IsDisabled ac s = (False, s1)
      \<and> Evaluate ac (Req c) (SignedInUser c) evaluator s1 = ((b, Some e), s2)
    \<longrightarrow> HasAccess ac c fallback evaluator s
          = Inr (False, s2,
              [CallIsDisabled False,
               CallEvaluate (Req c) (SignedInUser c) evaluator s1 (b, Some e),
               CallLoggerError ''Error from access control system'' ''error'' e]))
   \<and> (IsDisabled ac s = (False, s1)
      \<and> principal_at s1 (SignedInUser c) = Some u
      \<and> Evaluate ac (Req c) (Some (length (users s1))) evaluator
            (s1\<lparr>users := users s1 @ [u\<lparr>OrgId := G, OrgRole := '''', OrgName := ''''\<rparr>]\<rparr>)
          = ((b', Some e'), s3)
    \<longrightarrow> HasGlobalAccess G ac c fallback evaluator s
          = Inr (False, s3,
              [CallIsDisabled False,
               CallEvaluate (Req c) (Some (length (users s1))) evaluator
                 (s1\<lparr>users := users s1 @ [u\<lparr>OrgId := G, OrgRole := '''', OrgName := ''''\<rparr>]\<rparr>)
                 (b', Some e'),
               CallLoggerError ''Error from access control system'' ''error'' e']))"
proof (intro conjI impI; elim conjE)
  assume "IsDisabled ac s = (False, s1)"
    and "Evaluate ac (Req c) (SignedInUser c) evaluator s1 = ((b, Some e), s2)"
  then show "HasAccess ac c fallback evaluator s
          = Inr (False, s2,
              [CallIsDisabled False,
               CallEvaluate (Req c) (SignedInUser c) evaluator s1 (b, Some e),
               CallLoggerError ''Error from access control system'' ''error'' e])"
    by (simp add: HasAccess_def)
next
  assume "IsDisabled ac s = (False, s1)"
    and "principal_at s1 (SignedInUser c) = Some u"
    and "Evaluate ac (Req c) (Some (length (users s1))) evaluator
            (s1\<lparr>users := users s1 @ [u\<lparr>OrgId := G, OrgRole := '''', OrgName := ''''\<rparr>]\<rparr>)
          = ((b', Some e'), s3)"
  then show "HasGlobalAccess G ac c fallback evaluator s
          = Inr (False, s3,
              [CallIsDisabled False,
               CallEvaluate (Req c) (Some (length (users s1))) evaluator
                 (s1\<lparr>users := users s1 @ [u\<lparr>OrgId := G, OrgRole := '''', OrgName := ''''\<rparr>]\<rparr>)
                 (b', Some e'),
               CallLoggerError ''Error from access control system'' ''error'' e'])"
    by (simp add: HasGlobalAccess_def Let_def)
qed

theorem deny_on_Evaluate_error_witness:
  "IsDisabled failing_engine example_store = (False, example_store)
   \<and> Evaluate failing_engine (Req example_request) (SignedInUser example_request) ()
         example_store
       = ((True, Some ''lookup failed''), example_store)
   \<and> HasAccess failing_engine example_request allow_fallback () example_store
       = Inr (False, example_store,
           [CallIsDisabled False,
            CallEvaluate () (Some 0) () example_store (True, Some ''lookup failed''),
            CallLoggerError ''Error from access control system'' ''error'' ''lookup failed''])
   \<and> principal_at example_store (SignedInUser example_request) = Some example_user
   \<and> Evaluate failing_engine (Req example_request) (Some 1) () global_store
       = ((True, Some ''lookup failed''), global_store)
   \<and> HasGlobalAccess 0 failing_engine example_request allow_fallback () example_store
       = Inr (False, global_store,
           [CallIsDisabled False,
            CallEvaluate () (Some 1) () global_store (True, Some ''lookup failed''),
            CallLoggerError ''Error from access control system'' ''error'' ''lookup failed''])"
proof -
  have a: "IsDisabled failing_engine example_store = (False, example_store)"
    by (simp add: failing_engine_def)
  have b: "Evaluate failing_engine (Req example_request) (SignedInUser example_request) ()
             example_store = ((True, Some ''lookup failed''), example_store)"
    by (simp add: failing_engine_def)
  have p: "principal_at example_store (SignedInUser example_request) = Some example_user"
    by (simp add: principal_at_def example_store_def example_request_def)
  have g: "example_store\<lparr>users := users example_store
             @ [example_user\<lparr>OrgId := 0, OrgRole := '''', OrgName := ''''\<rparr>]\<rparr> = global_store"
    by (simp add: example_store_def example_user_def global_store_def)
  have l: "length (users example_store) = 1"
    by (simp add: example_store_def)
  have d: "Evaluate failing_engine (Req example_request) (Some 1) () global_store
             = ((True, Some ''lookup failed''), global_store)"
    by (simp add: failing_engine_def)
  have r: "Req example_request = ()" "SignedInUser example_request = Some 0"
    by (simp_all add: example_request_def)
  from deny_on_Evaluate_error
      [where ac = failing_engine and s = example_store and ?s1.0 = example_store
         and c = example_request and evaluator = "()" and b = True
         and e = "''lookup failed''" and ?s2.0 = example_store
         and fallback = allow_fallback and u = example_user and G = 0
         and b' = True and e' = "''lookup failed''" and ?s3.0 = global_store]
    a b p d
  show ?thesis by (simp add: g l r)
qed

text \<open>
  C6. When \<open>IsDisabled\<close> returns true, both helpers return what the fallback returns
  on the request context, and leave the store the fallback leaves. Their calls are
  \<open>IsDisabled\<close> and the fallback, in this order: \<open>Evaluate\<close> is not called.
\<close>

theorem disabled_engine_uses_fallback:
  assumes "IsDisabled ac s = (True, s1)"
    and "fallback c s1 = (r, s2)"
  shows "\<exists>tr. HasAccess ac c fallback evaluator s = Inr (r, s2, tr)
           \<and> HasGlobalAccess G ac c fallback evaluator s = Inr (r, s2, tr)
           \<and> tr = [CallIsDisabled True, CallFallback c r]
           \<and> filter is_CallEvaluate tr = []"
  using assms by (simp add: HasAccess_def HasGlobalAccess_def)

theorem disabled_engine_uses_fallback_witness:
  "IsDisabled disabled_engine example_store = (True, example_store)
   \<and> allow_fallback example_request example_store = (True, example_store)
   \<and> (\<exists>tr. HasAccess disabled_engine example_request allow_fallback () example_store
              = Inr (True, example_store, tr)
          \<and> HasGlobalAccess 0 disabled_engine example_request allow_fallback () example_store
              = Inr (True, example_store, tr)
          \<and> tr = [CallIsDisabled True, CallFallback example_request True]
          \<and> filter is_CallEvaluate tr = [])"
proof -
  have a: "IsDisabled disabled_engine example_store = (True, example_store)"
    by (simp add: disabled_engine_def)
  have b: "allow_fallback example_request example_store = (True, example_store)"
    by (simp add: allow_fallback_def)
  from disabled_engine_uses_fallback
      [where ac = disabled_engine and fallback = allow_fallback and c = example_request
         and evaluator = "()" and G = 0, OF a b] a b
  show ?thesis by simp
qed

text \<open>
  C7, as the code has it. With the engine enabled and \<open>c.SignedInUser\<close> pointing to
  the principal \<open>u\<close>, \<open>HasGlobalAccess\<close> calls \<open>Evaluate\<close> once, on a pointer \<open>p\<close>
  to a principal that is \<open>u\<close> with \<open>OrgId\<close> replaced by \<open>GlobalOrgID\<close> and with
  \<open>OrgRole\<close> and \<open>OrgName\<close> both cleared; an update of these three fields leaves
  \<open>other_fields\<close> as it is. The pointer \<open>p\<close> is not \<open>c.SignedInUser\<close>: in the store
  \<open>w\<close> handed to \<open>Evaluate\<close> the caller's principal is still \<open>u\<close>, every struct
  that was there is unchanged, and the helper leaves the store as \<open>Evaluate\<close> returns
  it.
\<close>

theorem HasGlobalAccess_principal:
  assumes "IsDisabled ac s = (False, s1)"
    and "principal_at s1 (SignedInUser c) = Some u"
  shows "\<exists>p w res r s' tr.
           HasGlobalAccess G ac c fallback evaluator s
             = Inr (r, s', CallIsDisabled False # CallEvaluate (Req c) p evaluator w res # tr)
         \<and> principal_at w p = Some (u\<lparr>OrgId := G, OrgRole := '''', OrgName := ''''\<rparr>)
         \<and> principal_at w (SignedInUser c) = Some u
         \<and> p \<noteq> SignedInUser c
         \<and> take (length (users s1)) (users w) = users s1
         \<and> engine w = engine s1
         \<and> Evaluate ac (Req c) p evaluator w = (res, s')
         \<and> filter is_CallEvaluate tr = []"
proof -
  from assms(2) obtain a where a: "SignedInUser c = Some a" "a < length (users s1)"
    "users s1 ! a = u"
    by (auto simp: principal_at_def split: option.splits if_splits)
  define p where "p = Some (length (users s1))"
  define w where "w = s1\<lparr>users := users s1 @ [u\<lparr>OrgId := G, OrgRole := '''', OrgName := ''''\<rparr>]\<rparr>"
  obtain hasAccess err s' where ev: "Evaluate ac (Req c) p evaluator w = ((hasAccess, err), s')"
    by (metis surj_pair)
  have 1: "principal_at w p = Some (u\<lparr>OrgId := G, OrgRole := '''', OrgName := ''''\<rparr>)"
    by (simp add: principal_at_def p_def w_def)
  have 2: "principal_at w (SignedInUser c) = Some u"
    using a by (simp add: principal_at_def w_def nth_append)
  have 3: "p \<noteq> SignedInUser c" using a by (simp add: p_def)
  have 4: "take (length (users s1)) (users w) = users s1" "engine w = engine s1"
    by (simp_all add: w_def)
  show ?thesis
  proof (cases err)
    case None
    with assms ev have "HasGlobalAccess G ac c fallback evaluator s
        = Inr (hasAccess, s', CallIsDisabled False # CallEvaluate (Req c) p evaluator w (hasAccess, err) # [])"
      by (simp add: HasGlobalAccess_def Let_def p_def w_def)
    with 1 2 3 4 ev show ?thesis by fastforce
  next
    case (Some e)
    with assms ev have "HasGlobalAccess G ac c fallback evaluator s
        = Inr (False, s', CallIsDisabled False # CallEvaluate (Req c) p evaluator w (hasAccess, err)
             # [CallLoggerError ''Error from access control system'' ''error'' e])"
      by (simp add: HasGlobalAccess_def Let_def p_def w_def)
    with 1 2 3 4 ev show ?thesis by fastforce
  qed
qed

theorem HasGlobalAccess_principal_witness:
  "IsDisabled granting_engine example_store = (False, example_store)
   \<and> principal_at example_store (SignedInUser example_request) = Some example_user
   \<and> (\<exists>p w res r s' tr.
         HasGlobalAccess 0 granting_engine example_request allow_fallback () example_store
           = Inr (r, s', CallIsDisabled False # CallEvaluate () p () w res # tr)
       \<and> principal_at w p = Some (example_user\<lparr>OrgId := 0, OrgRole := '''', OrgName := ''''\<rparr>)
       \<and> principal_at w (Some 0) = Some example_user
       \<and> p \<noteq> Some 0
       \<and> take 1 (users w) = [example_user]
       \<and> engine w = ()
       \<and> Evaluate granting_engine () p () w = (res, s')
       \<and> filter is_CallEvaluate tr = [])"
proof -
  have a: "IsDisabled granting_engine example_store = (False, example_store)"
    by (simp add: granting_engine_def)
  have b: "principal_at example_store (SignedInUser example_request) = Some example_user"
    by (simp add: principal_at_def example_store_def example_request_def)
  from HasGlobalAccess_principal [OF a b, of 0 allow_fallback "()"] a b show ?thesis
    by (simp add: example_request_def example_store_def)
qed

text \<open>
  C7 as stated fails: the principal handed to \<open>Evaluate\<close> is not the caller's
  principal with only \<open>OrgId\<close> and \<open>OrgRole\<close> changed. For the sample user of the
  organization \<open>Main Org.\<close> the copy has the empty \<open>OrgName\<close>.
\<close>

theorem HasGlobalAccess_OrgName_counterexample:
  "HasGlobalAccess 0 granting_engine example_request allow_fallback () example_store
     = Inr (True, global_store,
         [CallIsDisabled False, CallEvaluate () (Some 1) () global_store (True, None)])
   \<and> principal_at example_store (SignedInUser example_request) = Some example_user
   \<and> principal_at global_store (Some 1) \<noteq> Some (example_user\<lparr>OrgId := 0, OrgRole := ''''\<rparr>)"
  by (simp add: HasGlobalAccess_def Let_def principal_at_def granting_engine_def
      example_request_def example_store_def example_user_def global_store_def)

section \<open>Properties of the permissions map\<close>

text \<open>
  On a slice without nil entries the loop ends with every action of the slice set to
  true on top of the map it started from.
\<close>

lemma BuildPermissionsMap_loop_Some:
  "BuildPermissionsMap_loop (map Some ps) m =
     Inr (\<lambda>a. if a \<in> Action ` set ps then Some True else m a)"
proof (induction ps arbitrary: m)
  case Nil
  show ?case by simp
next
  case (Cons p ps)
  show ?case by (simp add: Cons.IH fun_eq_iff)
qed

text \<open>
  C8. For every list \<open>ps\<close> of permissions, \<open>BuildPermissionsMap\<close> returns a map whose
  keys are exactly the actions occurring in \<open>ps\<close>, each with the value true. For the
  permissions \<open>[{A,X},{A,Y},{B,X}]\<close> the keys are \<open>A\<close> and \<open>B\<close>, both true.
\<close>

theorem BuildPermissionsMap_keys:
  "(\<exists>m. BuildPermissionsMap (map Some ps) = Inr m
        \<and> dom m = Action ` set ps \<and> (\<forall>a \<in> dom m. m a = Some True))
   \<and> (\<exists>m. BuildPermissionsMap
             [Some \<lparr>Action = A, Scope = X\<rparr>, Some \<lparr>Action = A, Scope = Y\<rparr>,
              Some \<lparr>Action = B, Scope = X\<rparr>] = Inr m
        \<and> dom m = {A, B} \<and> m A = Some True \<and> m B = Some True)"
proof
  show "\<exists>m. BuildPermissionsMap (map Some ps) = Inr m
        \<and> dom m = Action ` set ps \<and> (\<forall>a \<in> dom m. m a = Some True)"
    unfolding BuildPermissionsMap_def BuildPermissionsMap_loop_Some
    by (auto simp: dom_def split: if_splits)
next
  show "\<exists>m. BuildPermissionsMap
             [Some \<lparr>Action = A, Scope = X\<rparr>, Some \<lparr>Action = A, Scope = Y\<rparr>,
              Some \<lparr>Action = B, Scope = X\<rparr>] = Inr m
        \<and> dom m = {A, B} \<and> m A = Some True \<and> m B = Some True"
    by (auto simp: BuildPermissionsMap_def)
qed

theorem BuildPermissionsMap_keys_witness:
  "\<exists>m. BuildPermissionsMap
          [Some \<lparr>Action = ''dashboards:read'', Scope = ''dashboards:id:1''\<rparr>,
           Some \<lparr>Action = ''dashboards:read'', Scope = ''dashboards:id:2''\<rparr>,
           Some \<lparr>Action = ''dashboards:write'', Scope = ''dashboards:id:1''\<rparr>] = Inr m
      \<and> dom m = {''dashboards:read'', ''dashboards:write''}
      \<and> (\<forall>a \<in> dom m. m a = Some True)"
  using BuildPermissionsMap_keys
      [of "[\<lparr>Action = ''dashboards:read'', Scope = ''dashboards:id:1''\<rparr>,
            \<lparr>Action = ''dashboards:read'', Scope = ''dashboards:id:2''\<rparr>,
            \<lparr>Action = ''dashboards:write'', Scope = ''dashboards:id:1''\<rparr>]"]
  by simp

section \<open>Properties of the dashboard guardian's response\<close>

text \<open>
  C9. For a non-nil error \<open>dashboardGuardianResponse\<close> returns the response that
  \<open>ApiError\<close> builds for the status 500, with that error; for the nil error, the
  response that \<open>ApiError\<close> builds for the status 403, with no error.
\<close>

theorem dashboardGuardianResponse_status:
  "dashboardGuardianResponse ApiError (Some e)
     = ApiError 500 ''Error while checking dashboard permissions'' (Some e)
   \<and> dashboardGuardianResponse ApiError None
     = ApiError 403 ''Access denied to this dashboard'' None"
  by (simp add: dashboardGuardianResponse_def)

theorem dashboardGuardianResponse_status_witness:
  "dashboardGuardianResponse (\<lambda>status message err. (status, message, err))
       (Some ''guardian lookup failed'')
     = (500, ''Error while checking dashboard permissions'', Some ''guardian lookup failed'')
   \<and> dashboardGuardianResponse (\<lambda>status message err. (status, message, err))
       (None :: string option)
     = (403, ''Access denied to this dashboard'', None)"
  using dashboardGuardianResponse_status
      [of "\<lambda>status message err. (status, message, err)" "''guardian lookup failed''"]
  by simp

end
